theory Spec2Isabelle
  imports Main "HOL-Library.Word"
begin

section \<open>Tab Copy plugin: the page, the plugin state and its effects\<close>

text \<open>
  The repository holds two copies of the plugin class \<open>TabCopyPlugin\<close>:
  \<^item> \<open>src/unnamed/part_000\<close>, which reads the title from the inner title element and
    reports through \<open>new Notice(...)\<close>;
  \<^item> \<open>src/main.ts\<close>, which reads \<open>activeTab.innerText\<close> and reports through
    \<open>console.log\<close> / \<open>console.error\<close>.
  The trigger management (\<open>addDoubleClickListener\<close>, \<open>removeDoubleClickListener\<close>,
  the observer callback, the settings toggle) is the same code in both files. The two
  \<open>copyLink\<close> methods are embedded separately: \<open>copyLink\<close> is the one of
  \<open>part_000\<close>, \<open>copyLink_main\<close> the one of \<open>src/main.ts\<close>.
\<close>

subsection \<open>JavaScript strings\<close>

text \<open>
  A JavaScript string is a sequence of UTF-16 code units. \<open>ascii\<close> embeds an ASCII
  literal of the source; the Chinese literals of \<open>part_000\<close> are written out by their
  code units.
\<close>

type_synonym jsstring = "16 word list"

definition ascii :: "string \<Rightarrow> jsstring" where
  "ascii s = map of_char s"

text \<open>A value interpolated in a template literal: \<open>null\<close> prints as \<open>null\<close>.\<close>

definition template_arg :: "jsstring option \<Rightarrow> jsstring" where
  "template_arg v = (case v of None \<Rightarrow> ascii ''null'' | Some s \<Rightarrow> s)"

subsection \<open>The part of the page that the selectors read\<close>

text \<open>
  \<open>tab_headers\<close> lists, in document order, the tab header elements of the page.
  \<open>elem_id\<close> is the identity of the element (event listeners stay with the element);
  \<open>matches_active\<close> says that the element matches
  \<open>.workspace-tab-header.tappable.is-active.mod-active\<close>; \<open>data_type\<close> is
  \<open>getAttribute('data-type')\<close> (\<open>None\<close> for \<open>null\<close>); \<open>inner_titles\<close> holds the
  \<open>innerText\<close> of its descendants of class \<open>workspace-tab-header-inner-title\<close>.
  \<open>webviews\<close> lists, in document order, every element matching
  \<open>.view-content.webviewer-content webview\<close>: \<open>webview_src\<close> is its \<open>src\<close> attribute
  (\<open>None\<close> when the attribute is missing), and \<open>owner\<close> is the tab header of the tab
  whose view contains the element. The host keeps that association; no selector of
  the plugin reads it.
\<close>

record tab_header =
  elem_id :: nat
  matches_active :: bool
  data_type :: "jsstring option"
  innerText :: jsstring
  inner_titles :: "jsstring list"

record webview =
  owner :: nat
  webview_src :: "jsstring option"

record page =
  tab_headers :: "tab_header list"
  webviews :: "webview list"

text \<open>\<open>document.querySelector\<close> returns the first match in document order, or \<open>null\<close>.\<close>

definition query_activeTab :: "page \<Rightarrow> tab_header option" where
  "query_activeTab d = find matches_active (tab_headers d)"

definition query_innerTitle :: "page \<Rightarrow> jsstring option" where
  "query_innerTitle d =
     (case concat (map inner_titles (filter matches_active (tab_headers d))) of
        [] \<Rightarrow> None
      | t # _ \<Rightarrow> Some t)"

definition query_webview :: "page \<Rightarrow> jsstring option option" where
  "query_webview d = (case webviews d of [] \<Rightarrow> None | e # _ \<Rightarrow> Some (webview_src e))"

text \<open>
  The web-content element associated with a tab header, as the specification speaks of
  it: the element of the tab's own view. This is what the claims about web tabs refer
  to; it is not something the source computes.
\<close>

definition associated_webview :: "page \<Rightarrow> tab_header \<Rightarrow> webview option" where
  "associated_webview d h = find (\<lambda>e. owner e = elem_id h) (webviews d)"

subsection \<open>The world: page, settings, listeners, clipboard, notices, console\<close>

text \<open>
  \<open>listeners\<close> holds one entry per registration of \<open>this.handleDoubleClick\<close> for
  \<open>dblclick\<close>: the identity of the element it is registered on.
  \<open>writeText_calls\<close> records the argument of every call of
  \<open>navigator.clipboard.writeText\<close>, oldest first; \<open>clipboard\<close> is the last string a
  successful write has put on the clipboard. \<open>notices\<close> are the texts shown with
  \<open>new Notice\<close>. \<open>stored\<close> is the persisted plugin data
  (\<open>None\<close>: nothing stored, or no \<open>enableDoubleClick\<close> key in it).
  \<open>pending_saves\<close> holds the toggle handlers that are suspended at
  \<open>await this.plugin.saveSettings()\<close>, oldest first: for each, the value the handler
  was called with (which is also the setting handed to \<open>saveData\<close>).
\<close>

datatype console_entry = Console_log "jsstring list" | Console_error jsstring

record world =
  page :: page
  enableDoubleClick :: bool
  stored :: "bool option"
  pending_saves :: "bool list"
  listeners :: "nat list"
  writeText_calls :: "jsstring list"
  clipboard :: "jsstring option"
  notices :: "jsstring list"
  console :: "console_entry list"

datatype error = TypeError

datatype outcome = Returned | Threw error

text \<open>
  \<open>navigator.clipboard.writeText(s)\<close>: the call is recorded; \<open>ok\<close> is the host's answer
  (the promise fulfils or rejects). The two callbacks given to \<open>then\<close> read nothing but
  the string they captured, so they are run in the same step as the call.
\<close>

definition writeText :: "bool \<Rightarrow> jsstring \<Rightarrow> world \<Rightarrow> world" where
  "writeText ok s w =
     w\<lparr>writeText_calls := writeText_calls w @ [s],
       clipboard := (if ok then Some s else clipboard w)\<rparr>"

definition new_Notice :: "jsstring \<Rightarrow> world \<Rightarrow> world" where
  "new_Notice s w = w\<lparr>notices := notices w @ [s]\<rparr>"

definition console_log :: "jsstring list \<Rightarrow> world \<Rightarrow> world" where
  "console_log args w = w\<lparr>console := console w @ [Console_log args]\<rparr>"

text \<open>
  \<open>console.error(msg, err)\<close>: the rejection reason \<open>err\<close> is supplied by the host and
  is not recorded.
\<close>

definition console_error :: "jsstring \<Rightarrow> world \<Rightarrow> world" where
  "console_error msg w = w\<lparr>console := console w @ [Console_error msg]\<rparr>"

subsection \<open>The notice texts of \<open>part_000\<close>\<close>

definition notice_markdown_copied :: jsstring where
  "notice_markdown_copied =
     [0x5DF2, 0x590D, 0x5236] @ ascii '' Markdown '' @ [0x94FE, 0x63A5] @ ascii '': ''"

definition notice_wiki_copied :: jsstring where
  "notice_wiki_copied =
     [0x5DF2, 0x590D, 0x5236] @ ascii '' Wiki '' @ [0x94FE, 0x63A5] @ ascii '': ''"

definition notice_copy_failed :: jsstring where
  "notice_copy_failed = [0x590D, 0x5236, 0x5931, 0x8D25, 0xFF0C, 0x8BF7, 0x91CD, 0x8BD5]"

definition notice_no_active_tab :: jsstring where
  "notice_no_active_tab =
     [0x672A, 0x627E, 0x5230, 0x6FC0, 0x6D3B, 0x7684, 0x6807, 0x7B7E, 0x9875]"

section \<open>copyLink\<close>

text \<open>The two link formats, as the template literals build them.\<close>

definition markdownLink :: "jsstring \<Rightarrow> jsstring option \<Rightarrow> jsstring" where
  "markdownLink tabTitle tabLink =
     ascii ''['' @ tabTitle @ ascii '']('' @ template_arg tabLink @ ascii '')''"

definition wikiLink :: "jsstring \<Rightarrow> jsstring" where
  "wikiLink tabTitle = ascii ''[['' @ tabTitle @ ascii '']]''"

text \<open>
  \<open>webviewContent ? webviewContent.getAttribute('src') : ''\<close>: the empty string when
  no element matches, otherwise the attribute (\<open>null\<close> when the element has no \<open>src\<close>).
\<close>

definition tabLink :: "page \<Rightarrow> jsstring option" where
  "tabLink d = (case query_webview d of None \<Rightarrow> Some [] | Some a \<Rightarrow> a)"

text \<open>
  \<open>copyLink\<close> of \<open>src/unnamed/part_000\<close>. The title is read from the result of the
  inner-title query without a null check: when that query finds nothing, reading
  \<open>innerText\<close> of \<open>null\<close> throws a \<open>TypeError\<close>.
\<close>

definition copyLink :: "bool \<Rightarrow> world \<Rightarrow> outcome \<times> world" where
  "copyLink ok w =
     (case query_activeTab (page w) of
        Some activeTab \<Rightarrow>
          (case query_innerTitle (page w) of
             None \<Rightarrow> (Threw TypeError, w)
           | Some tabTitle \<Rightarrow>
               (let dataType = data_type activeTab in
                if dataType = Some (ascii ''webviewer'') then
                  (let link = markdownLink tabTitle (tabLink (page w));
                       w1 = writeText ok link w
                   in (Returned,
                       if ok then new_Notice (notice_markdown_copied @ link) w1
                       else new_Notice notice_copy_failed w1))
                else if dataType = Some (ascii ''markdown'') then
                  (let link = wikiLink tabTitle;
                       w1 = writeText ok link w
                   in (Returned,
                       if ok then new_Notice (notice_wiki_copied @ link) w1
                       else new_Notice notice_copy_failed w1))
                else (Returned, w)))
      | None \<Rightarrow> (Returned, new_Notice notice_no_active_tab w))"

text \<open>
  \<open>copyLink\<close> of \<open>src/main.ts\<close>: the title is \<open>activeTab.innerText\<close>, and every
  report goes to the console.
\<close>

definition copyLink_main :: "bool \<Rightarrow> world \<Rightarrow> outcome \<times> world" where
  "copyLink_main ok w =
     (case query_activeTab (page w) of
        Some activeTab \<Rightarrow>
          (let tabTitle = innerText activeTab;
               dataType = data_type activeTab in
           if dataType = Some (ascii ''webviewer'') then
             (let link = markdownLink tabTitle (tabLink (page w));
                  w1 = console_log [ascii ''Markdown link:'', link] w;
                  w2 = writeText ok link w1
              in (Returned,
                  if ok then console_log [ascii ''Copied to clipboard:'', link] w2
                  else console_error (ascii ''Failed to copy to clipboard:'') w2))
           else if dataType = Some (ascii ''markdown'') then
             (let link = wikiLink tabTitle;
                  w1 = console_log [ascii ''Wiki link:'', link] w;
                  w2 = writeText ok link w1
              in (Returned,
                  if ok then console_log [ascii ''Copied to clipboard:'', link] w2
                  else console_error (ascii ''Failed to copy to clipboard:'') w2))
           else (Returned, w))
      | None \<Rightarrow> (Returned, console_log [ascii ''No active tab found.''] w))"

section \<open>The double-click trigger\<close>

text \<open>
  \<open>addEventListener\<close> and \<open>removeEventListener\<close> of the host, for the one listener
  \<open>this.handleDoubleClick\<close> (an arrow function stored in a field, so every call passes
  the same function): adding a listener that the element already has changes nothing;
  removing takes the registration away when there is one.
\<close>

definition addEventListener :: "nat \<Rightarrow> nat list \<Rightarrow> nat list" where
  "addEventListener e ls = (if e \<in> set ls then ls else ls @ [e])"

definition removeEventListener :: "nat \<Rightarrow> nat list \<Rightarrow> nat list" where
  "removeEventListener e ls = remove1 e ls"

definition removeDoubleClickListener :: "world \<Rightarrow> world" where
  "removeDoubleClickListener w =
     (case query_activeTab (page w) of
        Some activeTab \<Rightarrow>
          w\<lparr>listeners := removeEventListener (elem_id activeTab) (listeners w)\<rparr>
      | None \<Rightarrow> w)"

definition addDoubleClickListener :: "world \<Rightarrow> world" where
  "addDoubleClickListener w =
     (let w1 = removeDoubleClickListener w in
      case query_activeTab (page w1) of
        Some activeTab \<Rightarrow>
          w1\<lparr>listeners := addEventListener (elem_id activeTab) (listeners w1)\<rparr>
      | None \<Rightarrow> w1)"

text \<open>The two source files, and the \<open>copyLink\<close> each of them calls.\<close>

datatype variant = Part_000 | Main_ts

fun copyLink_of :: "variant \<Rightarrow> bool \<Rightarrow> world \<Rightarrow> outcome \<times> world" where
  "copyLink_of Part_000 = copyLink"
| "copyLink_of Main_ts = copyLink_main"

definition handleDoubleClick :: "variant \<Rightarrow> bool \<Rightarrow> world \<Rightarrow> outcome \<times> world" where
  "handleDoubleClick v ok w = copyLink_of v ok w"

section \<open>Settings, loading and the events the plugin reacts to\<close>

text \<open>
  \<open>Object.assign({}, DEFAULT_SETTINGS, await this.loadData())\<close>: a stored value wins
  over the default \<open>true\<close>.
\<close>

definition DEFAULT_SETTINGS :: bool where
  "DEFAULT_SETTINGS = True"

definition loadSettings :: "world \<Rightarrow> world" where
  "loadSettings w =
     w\<lparr>enableDoubleClick := (case stored w of None \<Rightarrow> DEFAULT_SETTINGS | Some b \<Rightarrow> b)\<rparr>"

text \<open>
  \<open>saveSettings\<close> hands the settings to the host's \<open>saveData\<close>; the caller is suspended
  until the host settles the promise (see \<open>SaveSettled\<close> below).
\<close>

definition saveSettings :: "world \<Rightarrow> world" where
  "saveSettings w = w\<lparr>pending_saves := pending_saves w @ [enableDoubleClick w]\<rparr>"

text \<open>
  The world in which the plugin is constructed: nothing written, nothing shown, no save
  under way, and the fresh \<open>handleDoubleClick\<close> registered nowhere.
\<close>

definition fresh_world :: "bool option \<Rightarrow> page \<Rightarrow> world" where
  "fresh_world st d =
     \<lparr>page = d, enableDoubleClick = False, stored = st, pending_saves = [],
      listeners = [], writeText_calls = [], clipboard = None, notices = [],
      console = []\<rparr>"

text \<open>
  \<open>onload\<close>: load the settings, attach the trigger when enabled (registering the command,
  the observer and the settings tab creates what the events below stand for).
  \<open>src/main.ts\<close> logs one line first. The worlds considered are those in which the
  host's \<open>loadData\<close> has resolved; otherwise \<open>onload\<close> ends before anything is set up.
\<close>

definition onload :: "variant \<Rightarrow> world \<Rightarrow> world" where
  "onload v w =
     (let w0 = (case v of Main_ts \<Rightarrow> console_log [ascii ''Loading TabCopyPlugin...''] w
                | Part_000 \<Rightarrow> w);
          w1 = loadSettings w0
      in if enableDoubleClick w1 then addDoubleClickListener w1 else w1)"

text \<open>The callback given to the \<open>MutationObserver\<close>.\<close>

definition observer_callback :: "world \<Rightarrow> world" where
  "observer_callback w =
     (if enableDoubleClick w then addDoubleClickListener w
      else removeDoubleClickListener w)"

text \<open>
  The \<open>onChange\<close> handler of the toggle in \<open>TabCopySettingTab.display\<close> is an
  \<open>async\<close> function with one \<open>await\<close>. \<open>onChange\<close> is its first part: it sets the
  setting and calls \<open>saveSettings\<close>, where it is suspended. \<open>onChange_resume\<close> is the
  part after the \<open>await\<close>, which runs when the save has resolved and attaches or
  detaches according to the value the handler was called with. When the save is
  rejected the handler ends at the \<open>await\<close> and the second part never runs.
\<close>

definition onChange :: "bool \<Rightarrow> world \<Rightarrow> world" where
  "onChange val w = saveSettings (w\<lparr>enableDoubleClick := val\<rparr>)"

definition onChange_resume :: "bool \<Rightarrow> world \<Rightarrow> world" where
  "onChange_resume val w =
     (if val then addDoubleClickListener w else removeDoubleClickListener w)"

text \<open>
  The host settles the \<open>n\<close>-th pending save: on success the data is stored and the
  suspended handler resumes; on failure the handler is dropped.
\<close>

definition save_settled :: "nat \<Rightarrow> bool \<Rightarrow> world \<Rightarrow> world" where
  "save_settled n saved w =
     (if n < length (pending_saves w) then
        (let val = pending_saves w ! n;
             w1 = w\<lparr>pending_saves := take n (pending_saves w) @ drop (Suc n) (pending_saves w)\<rparr>
         in if saved then onChange_resume val (w1\<lparr>stored := Some val\<rparr>) else w1)
      else w)"

text \<open>
  The events:
  \<^item> \<open>UIMutation d\<close>: the host has changed the page to \<open>d\<close> by adding or removing nodes;
    the observer, registered with \<open>{ childList: true, subtree: true }\<close>, is told and
    its callback runs;
  \<^item> \<open>PageChange d\<close>: the host has changed the page to \<open>d\<close> through attributes only
    (the classes that decide which header matches the active-tab selector, a
    \<open>data-type\<close>, a \<open>src\<close>); the observer does not watch attributes, so no callback
    runs;
  \<^item> \<open>Toggle val\<close>: the user sets the toggle of the settings tab to \<open>val\<close>;
  \<^item> \<open>SaveSettled n saved\<close>: the host settles the \<open>n\<close>-th pending save, resolving it
    (\<open>saved\<close>) or rejecting it;
  \<^item> \<open>DblClick e ok\<close>: a \<open>dblclick\<close> event reaches the tab header \<open>e\<close> of the page;
    the handler runs when \<open>e\<close> carries the listener (\<open>ok\<close> is the clipboard's answer,
    should a write be made);
  \<^item> \<open>Command ok\<close>: the command \<open>copy-link\<close> is invoked.
  An exception thrown by a handler ends that handler; the world is as the handler left
  it.
\<close>

datatype event =
  UIMutation page | PageChange page | Toggle bool | SaveSettled nat bool
  | DblClick nat bool | Command bool

fun step :: "variant \<Rightarrow> event \<Rightarrow> world \<Rightarrow> world" where
  "step v (UIMutation d) w = observer_callback (w\<lparr>page := d\<rparr>)"
| "step v (PageChange d) w = w\<lparr>page := d\<rparr>"
| "step v (Toggle val) w = onChange val w"
| "step v (SaveSettled n saved) w = save_settled n saved w"
| "step v (DblClick e ok) w =
     (if e \<in> set (map elem_id (tab_headers (page w))) \<and> e \<in> set (listeners w)
      then snd (handleDoubleClick v ok w) else w)"
| "step v (Command ok) w = snd (copyLink_of v ok w)"

fun run :: "variant \<Rightarrow> event list \<Rightarrow> world \<Rightarrow> world" where
  "run v [] w = w"
| "run v (ev # evs) w = run v evs (step v ev w)"

text \<open>The worlds the plugin can be in: loaded in some page, then any events.\<close>

definition reachable :: "variant \<Rightarrow> world \<Rightarrow> bool" where
  "reachable v w = (\<exists>st d evs. w = run v evs (onload v (fresh_world st d)))"

section \<open>Example pages\<close>

text \<open>Concrete pages on which the theorems below are evaluated.\<close>

definition header_notes :: tab_header where
  "header_notes =
     \<lparr>elem_id = 1, matches_active = True, data_type = Some (ascii ''markdown''),
      innerText = ascii ''Project Notes'', inner_titles = [ascii ''Project Notes'']\<rparr>"

definition page_note :: page where
  "page_note = \<lparr>tab_headers = [header_notes], webviews = []\<rparr>"

definition header_docs :: tab_header where
  "header_docs =
     \<lparr>elem_id = 1, matches_active = True, data_type = Some (ascii ''webviewer''),
      innerText = ascii ''Docs'', inner_titles = [ascii ''Docs'']\<rparr>"

definition page_web :: page where
  "page_web =
     \<lparr>tab_headers = [header_docs],
      webviews = [\<lparr>owner = 1, webview_src = Some (ascii ''https://example.com'')\<rparr>]\<rparr>"

definition page_empty :: page where
  "page_empty = \<lparr>tab_headers = [], webviews = []\<rparr>"

definition header_canvas :: tab_header where
  "header_canvas =
     \<lparr>elem_id = 1, matches_active = True, data_type = Some (ascii ''canvas''),
      innerText = ascii ''Board'', inner_titles = [ascii ''Board'']\<rparr>"

definition page_canvas :: page where
  "page_canvas = \<lparr>tab_headers = [header_canvas], webviews = []\<rparr>"

definition header_untitled :: tab_header where
  "header_untitled =
     \<lparr>elem_id = 1, matches_active = True, data_type = Some (ascii ''markdown''),
      innerText = ascii ''Project Notes'', inner_titles = []\<rparr>"

definition page_untitled :: page where
  "page_untitled = \<lparr>tab_headers = [header_untitled], webviews = []\<rparr>"

text \<open>Two note tabs \<open>A\<close> and \<open>B\<close>; the argument says whether the header is the active one.\<close>

definition header_A :: "bool \<Rightarrow> tab_header" where
  "header_A act =
     \<lparr>elem_id = 1, matches_active = act, data_type = Some (ascii ''markdown''),
      innerText = ascii ''A'', inner_titles = [ascii ''A'']\<rparr>"

definition header_B :: "bool \<Rightarrow> tab_header" where
  "header_B act =
     \<lparr>elem_id = 2, matches_active = act, data_type = Some (ascii ''markdown''),
      innerText = ascii ''B'', inner_titles = [ascii ''B'']\<rparr>"

definition page_A_active :: page where
  "page_A_active = \<lparr>tab_headers = [header_A True, header_B False], webviews = []\<rparr>"

definition page_B_active :: page where
  "page_B_active = \<lparr>tab_headers = [header_A False, header_B True], webviews = []\<rparr>"

text \<open>
  Two web viewer tabs, \<open>First\<close> and \<open>Second\<close>, each with its own web-content element;
  \<open>Second\<close> is the active tab.
\<close>

definition header_first :: tab_header where
  "header_first =
     \<lparr>elem_id = 1, matches_active = False, data_type = Some (ascii ''webviewer''),
      innerText = ascii ''First'', inner_titles = [ascii ''First'']\<rparr>"

definition header_second :: tab_header where
  "header_second =
     \<lparr>elem_id = 2, matches_active = True, data_type = Some (ascii ''webviewer''),
      innerText = ascii ''Second'', inner_titles = [ascii ''Second'']\<rparr>"

definition page_two_web :: page where
  "page_two_web =
     \<lparr>tab_headers = [header_first, header_second],
      webviews = [\<lparr>owner = 1, webview_src = Some (ascii ''https://first.example'')\<rparr>,
                  \<lparr>owner = 2, webview_src = Some (ascii ''https://second.example'')\<rparr>]\<rparr>"

text \<open>The same two tabs when the view of \<open>Second\<close> holds no web-content element.\<close>

definition page_two_web_one_view :: page where
  "page_two_web_one_view =
     \<lparr>tab_headers = [header_first, header_second],
      webviews = [\<lparr>owner = 1, webview_src = Some (ascii ''https://first.example'')\<rparr>]\<rparr>"

text \<open>
  Loaded with \<open>A\<close> active and the default settings; a node change makes \<open>B\<close> the active
  tab; the toggle is switched off and the save resolves; then the classes flip back so
  that \<open>A\<close> is the active tab again, which the observer is not told.
\<close>

definition world_stale_trigger :: world where
  "world_stale_trigger =
     run Part_000
       [UIMutation page_B_active, Toggle False, SaveSettled 0 True, PageChange page_A_active]
       (onload Part_000 (fresh_world None page_A_active))"



text \<open>Loaded with \<open>A\<close> active, then two observer callbacks on the unchanged page.\<close>

definition world_loaded :: world where
  "world_loaded = run Part_000 [UIMutation page_A_active, UIMutation page_A_active]
                    (onload Part_000 (fresh_world None page_A_active))"

section \<open>What copyLink writes and reports\<close>

lemmas effect_defs = writeText_def new_Notice_def console_log_def console_error_def

lemmas link_defs = markdownLink_def wikiLink_def tabLink_def template_arg_def

text \<open>
  C1. When the active tab header has \<open>data-type\<close> \<open>markdown\<close> and title \<open>T\<close>,
  \<open>copyLink\<close> calls \<open>writeText\<close> once, with exactly \<open>[[T]]\<close>, and a successful write
  leaves \<open>[[T]]\<close> on the clipboard. This holds for both copies of \<open>copyLink\<close>; the title
  is the text of the inner title element in \<open>part_000\<close> and the \<open>innerText\<close> of the
  header in \<open>src/main.ts\<close>.
\<close>

theorem C1_note_link_copied:
  assumes "query_activeTab (page w) = Some h"
    and "data_type h = Some (ascii ''markdown'')"
  shows "(query_innerTitle (page w) = Some T \<longrightarrow>
            fst (copyLink ok w) = Returned \<and>
            writeText_calls (snd (copyLink ok w)) =
              writeText_calls w @ [ascii ''[['' @ T @ ascii '']]''] \<and>
            (ok \<longrightarrow>
               clipboard (snd (copyLink ok w)) = Some (ascii ''[['' @ T @ ascii '']]''))) \<and>
         (innerText h = T \<longrightarrow>
            fst (copyLink_main ok w) = Returned \<and>
            writeText_calls (snd (copyLink_main ok w)) =
              writeText_calls w @ [ascii ''[['' @ T @ ascii '']]''] \<and>
            (ok \<longrightarrow>
               clipboard (snd (copyLink_main ok w)) = Some (ascii ''[['' @ T @ ascii '']]'')))"
  using assms
  by (simp add: copyLink_def copyLink_main_def effect_defs link_defs Let_def ascii_def)

text \<open>The scenario of the specification: title \<open>Project Notes\<close>, a note tab.\<close>

theorem C1_note_link_copied_witness:
  "clipboard (snd (copyLink True (fresh_world None page_note))) =
     Some (ascii ''[[Project Notes]]'') \<and>
   writeText_calls (snd (copyLink True (fresh_world None page_note))) =
     [ascii ''[[Project Notes]]''] \<and>
   clipboard (snd (copyLink_main True (fresh_world None page_note))) =
     Some (ascii ''[[Project Notes]]'')"
proof -
  have a: "query_activeTab (page (fresh_world None page_note)) = Some header_notes"
    by (simp add: query_activeTab_def fresh_world_def page_note_def header_notes_def)
  have b: "data_type header_notes = Some (ascii ''markdown'')"
    by (simp add: header_notes_def)
  have c: "query_innerTitle (page (fresh_world None page_note)) = Some (ascii ''Project Notes'')"
    by (simp add: query_innerTitle_def fresh_world_def page_note_def header_notes_def)
  have d: "innerText header_notes = ascii ''Project Notes''"
    by (simp add: header_notes_def)
  from C1_note_link_copied [OF a b, of "ascii ''Project Notes''" True] c d
  show ?thesis by (simp add: fresh_world_def ascii_def)
qed

text \<open>
  What \<open>copyLink\<close> writes for a web tab: the address is the \<open>src\<close> of the first
  web-content element of the whole document, whichever tab it belongs to, and the empty
  string when the document holds no such element at all (\<open>T\<close> is the inner title for
  \<open>part_000\<close>, \<open>T'\<close> the header's \<open>innerText\<close> for \<open>src/main.ts\<close>).
\<close>

lemma web_link_first_webview:
  assumes "query_activeTab (page w) = Some h"
    and "data_type h = Some (ascii ''webviewer'')"
    and "query_innerTitle (page w) = Some T"
    and "innerText h = T'"
  shows "(query_webview (page w) = Some (Some A) \<longrightarrow>
            writeText_calls (snd (copyLink ok w)) =
              writeText_calls w @ [ascii ''['' @ T @ ascii '']('' @ A @ ascii '')''] \<and>
            writeText_calls (snd (copyLink_main ok w)) =
              writeText_calls w @ [ascii ''['' @ T' @ ascii '']('' @ A @ ascii '')'']) \<and>
         (query_webview (page w) = None \<longrightarrow>
            fst (copyLink ok w) = Returned \<and>
            writeText_calls (snd (copyLink ok w)) =
              writeText_calls w @ [ascii ''['' @ T @ ascii '']()''] \<and>
            fst (copyLink_main ok w) = Returned \<and>
            writeText_calls (snd (copyLink_main ok w)) =
              writeText_calls w @ [ascii ''['' @ T' @ ascii '']()''])"
  using assms
  by (simp add: copyLink_def copyLink_main_def effect_defs link_defs Let_def ascii_def)

text \<open>
  When the first web-content element of the document is the one of the active tab, the
  address written is the associated one.
\<close>

lemma web_link_associated_when_first:
  assumes "query_activeTab (page w) = Some h"
    and "data_type h = Some (ascii ''webviewer'')"
    and "query_innerTitle (page w) = Some T"
    and "webviews (page w) = e # es"
    and "owner e = elem_id h"
    and "webview_src e = Some A"
  shows "associated_webview (page w) h = Some e \<and>
         writeText_calls (snd (copyLink ok w)) =
           writeText_calls w @ [ascii ''['' @ T @ ascii '']('' @ A @ ascii '')''] \<and>
         writeText_calls (snd (copyLink_main ok w)) =
           writeText_calls w @ [ascii ''['' @ innerText h @ ascii '']('' @ A @ ascii '')'']"
  using assms
  by (simp add: copyLink_def copyLink_main_def associated_webview_def query_webview_def
      effect_defs link_defs Let_def ascii_def)

text \<open>The scenario of the specification: title \<open>Docs\<close>, address \<open>https://example.com\<close>.\<close>

lemma web_link_scenario_docs:
  "writeText_calls (snd (copyLink True (fresh_world None page_web))) =
     [ascii ''[Docs](https://example.com)''] \<and>
   writeText_calls (snd (copyLink_main True (fresh_world None page_web))) =
     [ascii ''[Docs](https://example.com)'']"
  by (simp add: copyLink_def copyLink_main_def query_activeTab_def query_innerTitle_def
      query_webview_def fresh_world_def page_web_def header_docs_def
      effect_defs link_defs Let_def ascii_def)

text \<open>
  An element found without a \<open>src\<close> attribute: \<open>getAttribute\<close> gives \<open>null\<close>, which the
  template literal prints as \<open>null\<close>.
\<close>

lemma web_link_without_src:
  assumes "query_activeTab (page w) = Some h"
    and "data_type h = Some (ascii ''webviewer'')"
    and "query_innerTitle (page w) = Some T"
    and "query_webview (page w) = Some None"
  shows "writeText_calls (snd (copyLink ok w)) =
           writeText_calls w @ [ascii ''['' @ T @ ascii ''](null)'']"
  using assms
  by (simp add: copyLink_def effect_defs link_defs Let_def ascii_def)

text \<open>
  C2 says that for an active web tab with title \<open>T\<close> \<open>copyLink\<close> writes \<open>[T](A)\<close> with
  \<open>A\<close> the address of the web-content element associated with that tab, and \<open>[T]()\<close>
  when the tab has no associated element. The source comments say the same (``find the
  active tab and its associated content'', ``find the associated webview element''),
  but the query is made on the whole document and takes its first match. With two web
  tabs open and \<open>Second\<close> active, both copies of \<open>copyLink\<close> write the title of \<open>Second\<close>
  with the address of \<open>First\<close>: where \<open>Second\<close> has its own element
  (\<open>https://second.example\<close>), and also where \<open>Second\<close> has none and \<open>[Second]()\<close> is
  due.
\<close>

theorem C2_address_of_another_tab:
  "query_activeTab page_two_web = Some header_second \<and>
   associated_webview page_two_web header_second =
     Some \<lparr>owner = 2, webview_src = Some (ascii ''https://second.example'')\<rparr> \<and>
   writeText_calls (snd (copyLink True (fresh_world None page_two_web))) =
     [ascii ''[Second](https://first.example)''] \<and>
   writeText_calls (snd (copyLink_main True (fresh_world None page_two_web))) =
     [ascii ''[Second](https://first.example)''] \<and>
   query_activeTab page_two_web_one_view = Some header_second \<and>
   associated_webview page_two_web_one_view header_second = None \<and>
   writeText_calls (snd (copyLink True (fresh_world None page_two_web_one_view))) =
     [ascii ''[Second](https://first.example)''] \<and>
   writeText_calls (snd (copyLink_main True (fresh_world None page_two_web_one_view))) =
     [ascii ''[Second](https://first.example)'']"
  by (simp add: copyLink_def copyLink_main_def query_activeTab_def query_innerTitle_def
      query_webview_def associated_webview_def fresh_world_def page_two_web_def
      page_two_web_one_view_def header_first_def header_second_def
      effect_defs link_defs Let_def ascii_def)

text \<open>
  C3, as stated, asks for a user-visible notice when no element matches the active-tab
  selector. The \<open>copyLink\<close> of \<open>src/main.ts\<close> shows none: on the empty page it leaves
  \<open>notices\<close> empty.
\<close>

theorem C3_counterexample:
  "query_activeTab (page (fresh_world None page_empty)) = None \<and>
   notices (snd (copyLink_main True (fresh_world None page_empty))) = []"
  by (simp add: query_activeTab_def copyLink_main_def fresh_world_def page_empty_def
      effect_defs)

text \<open>
  C3, amended. When no element matches the active-tab selector, neither copy of
  \<open>copyLink\<close> calls \<open>writeText\<close>; the \<open>copyLink\<close> of \<open>part_000\<close> shows the notice
  \<open>notice_no_active_tab\<close> and changes nothing else, while the \<open>copyLink\<close> of
  \<open>src/main.ts\<close> only logs \<open>No active tab found.\<close> to the console.
\<close>

theorem C3_no_active_tab:
  assumes "query_activeTab (page w) = None"
  shows "copyLink ok w = (Returned, w\<lparr>notices := notices w @ [notice_no_active_tab]\<rparr>) \<and>
         copyLink_main ok w =
           (Returned,
            w\<lparr>console := console w @ [Console_log [ascii ''No active tab found.'']]\<rparr>)"
  using assms by (simp add: copyLink_def copyLink_main_def effect_defs)

theorem C3_no_active_tab_witness:
  "writeText_calls (snd (copyLink True (fresh_world None page_empty))) = [] \<and>
   notices (snd (copyLink True (fresh_world None page_empty))) = [notice_no_active_tab] \<and>
   writeText_calls (snd (copyLink_main True (fresh_world None page_empty))) = [] \<and>
   console (snd (copyLink_main True (fresh_world None page_empty))) =
     [Console_log [ascii ''No active tab found.'']]"
proof -
  have a: "query_activeTab (page (fresh_world None page_empty)) = None"
    by (simp add: query_activeTab_def fresh_world_def page_empty_def)
  from C3_no_active_tab [OF a, of True]
  show ?thesis by (simp add: fresh_world_def)
qed

text \<open>
  C4, as stated, asks for a user-visible notification after every clipboard write. The
  \<open>copyLink\<close> of \<open>src/main.ts\<close> writes the wiki link of the note tab and shows no
  notice.
\<close>

theorem C4_counterexample:
  "writeText_calls (snd (copyLink_main True (fresh_world None page_note))) =
     [ascii ''[[Project Notes]]''] \<and>
   clipboard (snd (copyLink_main True (fresh_world None page_note))) =
     Some (ascii ''[[Project Notes]]'') \<and>
   notices (snd (copyLink_main True (fresh_world None page_note))) = []"
  by (simp add: query_activeTab_def copyLink_main_def fresh_world_def page_note_def
      header_notes_def effect_defs link_defs Let_def ascii_def)

text \<open>
  C4, amended. Whenever an invocation calls \<open>writeText\<close>:
  the \<open>copyLink\<close> of \<open>part_000\<close> shows, on a successful write, a notice that ends with
  the copied string (after \<open>notice_markdown_copied\<close> or \<open>notice_wiki_copied\<close>) and, on
  a failed write, the notice \<open>notice_copy_failed\<close>;
  the \<open>copyLink\<close> of \<open>src/main.ts\<close> shows no notice and logs to the console instead
  (\<open>Copied to clipboard:\<close> with the string, or \<open>Failed to copy to clipboard:\<close> as an
  error).
\<close>

theorem C4_write_reported:
  "(writeText_calls (snd (copyLink ok w)) \<noteq> writeText_calls w \<longrightarrow>
      (\<exists>link. writeText_calls (snd (copyLink ok w)) = writeText_calls w @ [link] \<and>
         (if ok
          then notices (snd (copyLink ok w)) = notices w @ [notice_markdown_copied @ link] \<or>
               notices (snd (copyLink ok w)) = notices w @ [notice_wiki_copied @ link]
          else notices (snd (copyLink ok w)) = notices w @ [notice_copy_failed]))) \<and>
   (writeText_calls (snd (copyLink_main ok w)) \<noteq> writeText_calls w \<longrightarrow>
      (\<exists>link label.
         writeText_calls (snd (copyLink_main ok w)) = writeText_calls w @ [link] \<and>
         console (snd (copyLink_main ok w)) =
           console w @
             [Console_log [label, link],
              if ok then Console_log [ascii ''Copied to clipboard:'', link]
              else Console_error (ascii ''Failed to copy to clipboard:'')] \<and>
         notices (snd (copyLink_main ok w)) = notices w))"
  by (auto simp add: copyLink_def copyLink_main_def effect_defs Let_def
      split: option.splits)

theorem C4_write_reported_witness:
  "notices (snd (copyLink True (fresh_world None page_note))) =
     [notice_wiki_copied @ ascii ''[[Project Notes]]''] \<and>
   notices (snd (copyLink False (fresh_world None page_note))) = [notice_copy_failed] \<and>
   notices (snd (copyLink True (fresh_world None page_web))) =
     [notice_markdown_copied @ ascii ''[Docs](https://example.com)'']"
proof -
  have a: "writeText_calls (snd (copyLink True (fresh_world None page_note))) =
             [ascii ''[[Project Notes]]'']"
    and b: "writeText_calls (snd (copyLink False (fresh_world None page_note))) =
             [ascii ''[[Project Notes]]'']"
    and c: "writeText_calls (snd (copyLink True (fresh_world None page_web))) =
             [ascii ''[Docs](https://example.com)'']"
    by (simp_all add: query_activeTab_def query_innerTitle_def query_webview_def copyLink_def
        fresh_world_def page_note_def header_notes_def page_web_def header_docs_def
        effect_defs link_defs Let_def ascii_def)
  have w0: "writeText_calls (fresh_world None page_note) = []"
       "writeText_calls (fresh_world None page_web) = []"
       "notices (fresh_world None page_note) = []"
       "notices (fresh_world None page_web) = []"
    by (simp_all add: fresh_world_def)
  have t: "notices (snd (copyLink True (fresh_world None page_note))) \<noteq>
            [notice_markdown_copied @ ascii ''[[Project Notes]]'']"
    by (simp add: query_activeTab_def query_innerTitle_def copyLink_def
        fresh_world_def page_note_def header_notes_def
        effect_defs link_defs Let_def ascii_def notice_wiki_copied_def notice_markdown_copied_def)
  have u: "notices (snd (copyLink True (fresh_world None page_web))) \<noteq>
            [notice_wiki_copied @ ascii ''[Docs](https://example.com)'']"
    by (simp add: query_activeTab_def query_innerTitle_def query_webview_def copyLink_def
        fresh_world_def page_web_def header_docs_def
        effect_defs link_defs Let_def ascii_def notice_wiki_copied_def notice_markdown_copied_def)
  from C4_write_reported [of True "fresh_world None page_note"]
       C4_write_reported [of False "fresh_world None page_note"]
       C4_write_reported [of True "fresh_world None page_web"]
       a b c t u
  show ?thesis by (simp add: w0)
qed

text \<open>
  C5. When the active tab header has a \<open>data-type\<close> other than \<open>webviewer\<close> and
  \<open>markdown\<close> (or none), \<open>copyLink\<close> leaves the world as it is: no link, no call of
  \<open>writeText\<close>, no notice, no console output. \<open>src/main.ts\<close> always returns; \<open>part_000\<close>
  returns whenever the inner title element exists (without it the title lookup throws
  before the kind is looked at, see C10, and the world is still unchanged).
\<close>

theorem C5_unrecognised_kind_silent:
  assumes "query_activeTab (page w) = Some h"
    and "data_type h \<noteq> Some (ascii ''webviewer'')"
    and "data_type h \<noteq> Some (ascii ''markdown'')"
  shows "snd (copyLink ok w) = w \<and>
         (query_innerTitle (page w) \<noteq> None \<longrightarrow> copyLink ok w = (Returned, w)) \<and>
         copyLink_main ok w = (Returned, w)"
  using assms
  by (auto simp add: copyLink_def copyLink_main_def Let_def split: option.splits)

theorem C5_unrecognised_kind_silent_witness:
  "copyLink True (fresh_world None page_canvas) = (Returned, fresh_world None page_canvas) \<and>
   copyLink_main True (fresh_world None page_canvas) = (Returned, fresh_world None page_canvas) \<and>
   writeText_calls (fresh_world None page_canvas) = [] \<and>
   notices (fresh_world None page_canvas) = [] \<and>
   console (fresh_world None page_canvas) = []"
proof -
  have a: "query_activeTab (page (fresh_world None page_canvas)) = Some header_canvas"
    by (simp add: query_activeTab_def fresh_world_def page_canvas_def header_canvas_def)
  have b: "data_type header_canvas \<noteq> Some (ascii ''webviewer'')"
    and c: "data_type header_canvas \<noteq> Some (ascii ''markdown'')"
    by (simp_all add: header_canvas_def ascii_def)
  have d: "query_innerTitle (page (fresh_world None page_canvas)) \<noteq> None"
    by (simp add: query_innerTitle_def fresh_world_def page_canvas_def header_canvas_def)
  from C5_unrecognised_kind_silent [OF a b c, of True] d
  show ?thesis by (simp add: fresh_world_def)
qed

text \<open>
  \<open>copyLink\<close> does not change the page, and what it passes to \<open>writeText\<close> depends on
  the page alone: not on the listeners, the settings, the clipboard, earlier notices or
  the answer of the clipboard.
\<close>

lemma copyLink_page: "page (snd (copyLink ok w)) = page w"
  by (simp add: copyLink_def effect_defs Let_def split: option.splits)

lemma copyLink_main_page: "page (snd (copyLink_main ok w)) = page w"
  by (simp add: copyLink_main_def effect_defs Let_def split: option.splits)

lemma copyLink_depends_on_page:
  assumes "page w' = page w"
  shows "\<exists>xs. writeText_calls (snd (copyLink ok w)) = writeText_calls w @ xs \<and>
              writeText_calls (snd (copyLink ok' w')) = writeText_calls w' @ xs"
  using assms
  by (simp add: copyLink_def effect_defs Let_def split: option.splits)

lemma copyLink_main_depends_on_page:
  assumes "page w' = page w"
  shows "\<exists>xs. writeText_calls (snd (copyLink_main ok w)) = writeText_calls w @ xs \<and>
              writeText_calls (snd (copyLink_main ok' w')) = writeText_calls w' @ xs"
  using assms
  by (simp add: copyLink_main_def effect_defs Let_def split: option.splits)

text \<open>
  C9. Two calls of \<open>copyLink\<close> in succession, with nothing else happening in between,
  pass the same strings to \<open>writeText\<close>: the second call appends to the record of calls
  exactly what the first one appended, whatever the clipboard answered (\<open>ok1\<close>,
  \<open>ok2\<close>). Both copies of \<open>copyLink\<close>.
\<close>

theorem C9_same_link_twice:
  "(\<exists>xs. writeText_calls (snd (copyLink ok1 w)) = writeText_calls w @ xs \<and>
         writeText_calls (snd (copyLink ok2 (snd (copyLink ok1 w)))) =
           writeText_calls w @ xs @ xs) \<and>
   (\<exists>xs. writeText_calls (snd (copyLink_main ok1 w)) = writeText_calls w @ xs \<and>
         writeText_calls (snd (copyLink_main ok2 (snd (copyLink_main ok1 w)))) =
           writeText_calls w @ xs @ xs)"
proof
  from copyLink_depends_on_page [OF copyLink_page, of ok1 w ok2 ok1]
  show "\<exists>xs. writeText_calls (snd (copyLink ok1 w)) = writeText_calls w @ xs \<and>
         writeText_calls (snd (copyLink ok2 (snd (copyLink ok1 w)))) =
           writeText_calls w @ xs @ xs"
    by auto
next
  from copyLink_main_depends_on_page [OF copyLink_main_page, of ok1 w ok2 ok1]
  show "\<exists>xs. writeText_calls (snd (copyLink_main ok1 w)) = writeText_calls w @ xs \<and>
         writeText_calls (snd (copyLink_main ok2 (snd (copyLink_main ok1 w)))) =
           writeText_calls w @ xs @ xs"
    by auto
qed

text \<open>
  C10. When an element matches the active-tab selector and none matches the inner-title
  selector, the \<open>copyLink\<close> of \<open>part_000\<close> throws a \<open>TypeError\<close> (it reads
  \<open>innerText\<close> of \<open>null\<close>) and the world is unchanged: no \<open>writeText\<close>, no notice.
  The command \<open>copy-link\<close> reaches this branch.
\<close>

theorem C10_missing_title_throws:
  assumes "query_activeTab (page w) = Some h"
    and "query_innerTitle (page w) = None"
  shows "copyLink ok w = (Threw TypeError, w) \<and> step Part_000 (Command ok) w = w"
  using assms by (simp add: copyLink_def)

theorem C10_missing_title_throws_witness:
  "copyLink True (fresh_world None page_untitled) =
     (Threw TypeError, fresh_world None page_untitled) \<and>
   writeText_calls (fresh_world None page_untitled) = [] \<and>
   notices (fresh_world None page_untitled) = []"
proof -
  have a: "query_activeTab (page (fresh_world None page_untitled)) = Some header_untitled"
    by (simp add: query_activeTab_def fresh_world_def page_untitled_def header_untitled_def)
  have b: "query_innerTitle (page (fresh_world None page_untitled)) = None"
    by (simp add: query_innerTitle_def fresh_world_def page_untitled_def header_untitled_def)
  from C10_missing_title_throws [OF a b, of True]
  show ?thesis by (simp add: fresh_world_def)
qed

section \<open>The double-click trigger over time\<close>

lemmas fixture_defs = header_A_def header_B_def page_A_active_def page_B_active_def

lemmas trigger_defs = addDoubleClickListener_def removeDoubleClickListener_def
  addEventListener_def removeEventListener_def

lemmas plugin_defs = onload_def loadSettings_def saveSettings_def DEFAULT_SETTINGS_def
  observer_callback_def onChange_def onChange_resume_def save_settled_def
  handleDoubleClick_def

subsection \<open>Frame lemmas, and the invariant: no element carries the listener twice\<close>

lemma remove_frame [simp]:
  "page (removeDoubleClickListener w) = page w"
  "enableDoubleClick (removeDoubleClickListener w) = enableDoubleClick w"
  by (simp_all add: removeDoubleClickListener_def split: option.splits)

lemma add_frame [simp]:
  "page (addDoubleClickListener w) = page w"
  "enableDoubleClick (addDoubleClickListener w) = enableDoubleClick w"
  by (simp_all add: addDoubleClickListener_def Let_def split: option.splits)

lemma remove_distinct:
  "distinct (listeners w) \<Longrightarrow> distinct (listeners (removeDoubleClickListener w))"
  by (simp add: removeDoubleClickListener_def removeEventListener_def split: option.splits)

lemma remove_detaches:
  "distinct (listeners w) \<Longrightarrow> query_activeTab (page w) = Some a \<Longrightarrow>
   elem_id a \<notin> set (listeners (removeDoubleClickListener w))"
  by (simp add: removeDoubleClickListener_def removeEventListener_def)

lemma add_distinct:
  "distinct (listeners w) \<Longrightarrow> distinct (listeners (addDoubleClickListener w))"
  by (simp add: trigger_defs Let_def split: option.splits)

lemma copyLink_of_frame [simp]:
  "page (snd (copyLink_of v ok w)) = page w"
  "enableDoubleClick (snd (copyLink_of v ok w)) = enableDoubleClick w"
  "listeners (snd (copyLink_of v ok w)) = listeners w"
  by (cases v; simp add: copyLink_def copyLink_main_def effect_defs Let_def
      split: option.splits)+

lemma distinct_onload: "distinct (listeners (onload v (fresh_world st d)))"
proof -
  have "listeners (loadSettings (case v of
           Main_ts \<Rightarrow> console_log [ascii ''Loading TabCopyPlugin...''] (fresh_world st d)
         | Part_000 \<Rightarrow> fresh_world st d)) = []"
    by (cases v) (simp_all add: loadSettings_def console_log_def fresh_world_def)
  then have "distinct (listeners (loadSettings (case v of
           Main_ts \<Rightarrow> console_log [ascii ''Loading TabCopyPlugin...''] (fresh_world st d)
         | Part_000 \<Rightarrow> fresh_world st d)))"
    by simp
  then show ?thesis
    by (simp add: onload_def Let_def add_distinct)
qed

lemma distinct_resume:
  "distinct (listeners w) \<Longrightarrow> distinct (listeners (onChange_resume val w))"
  by (simp add: onChange_resume_def add_distinct remove_distinct)

lemma distinct_step:
  assumes "distinct (listeners w)"
  shows "distinct (listeners (step v ev w))"
proof (cases ev)
  case (UIMutation d)
  from assms have "distinct (listeners (w\<lparr>page := d\<rparr>))" by simp
  then show ?thesis using UIMutation
    by (simp add: observer_callback_def add_distinct remove_distinct)
next
  case (PageChange d)
  then show ?thesis using assms by simp
next
  case (Toggle val)
  then show ?thesis using assms by (simp add: onChange_def saveSettings_def)
next
  case (SaveSettled n saved)
  have "distinct (listeners (onChange_resume val (w\<lparr>pending_saves := ps, stored := st\<rparr>)))"
    for val ps st
    using assms by (simp add: distinct_resume)
  then show ?thesis using SaveSettled assms
    by (simp add: save_settled_def Let_def)
next
  case (DblClick e ok)
  then show ?thesis using assms by (simp add: handleDoubleClick_def)
next
  case (Command ok)
  then show ?thesis using assms by simp
qed

lemma distinct_run: "distinct (listeners w) \<Longrightarrow> distinct (listeners (run v evs w))"
  by (induction evs arbitrary: w) (simp_all add: distinct_step)

lemma reachable_distinct: "reachable v w \<Longrightarrow> distinct (listeners w)"
  by (auto simp add: reachable_def distinct_run distinct_onload)


lemma distinct_count_list:
  "distinct xs \<Longrightarrow> count_list xs e = (if e \<in> set xs then 1 else 0)"
  by (induction xs) auto

lemma add_attaches:
  "query_activeTab (page w) = Some a \<Longrightarrow> elem_id a \<in> set (listeners (addDoubleClickListener w))"
  by (simp add: trigger_defs Let_def)

lemma add_twice:
  "distinct (listeners w) \<Longrightarrow>
   addDoubleClickListener (addDoubleClickListener w) = addDoubleClickListener w"
  by (auto simp add: trigger_defs Let_def remove1_append split: option.splits)


subsection \<open>The example worlds, evaluated\<close>

lemma world_stale_trigger_eval:
  "world_stale_trigger =
     \<lparr>page = page_A_active, enableDoubleClick = False, stored = Some False,
      pending_saves = [], listeners = [1], writeText_calls = [], clipboard = None,
      notices = [], console = []\<rparr>"
  by (simp add: world_stale_trigger_def fresh_world_def plugin_defs trigger_defs
      query_activeTab_def fixture_defs Let_def)





lemma world_loaded_eval:
  "world_loaded =
     \<lparr>page = page_A_active, enableDoubleClick = True, stored = None,
      pending_saves = [], listeners = [1], writeText_calls = [], clipboard = None,
      notices = [], console = []\<rparr>"
  by (simp add: world_loaded_def fresh_world_def plugin_defs trigger_defs
      query_activeTab_def fixture_defs Let_def)

subsection \<open>The setting switched off\<close>

text \<open>
  What the code does to keep the trigger off: the observer callback and the resumed
  toggle handler detach the listener from the header that is active when they run.
\<close>

lemma observer_callback_detaches:
  assumes "distinct (listeners w)"
    and "\<not> enableDoubleClick w"
    and "query_activeTab (page w) = Some a"
  shows "elem_id a \<notin> set (listeners (observer_callback w))"
  using assms by (simp add: observer_callback_def remove_detaches)

text \<open>
  C6 says that while the setting is off no trigger is attached to the active tab header
  and no double-click on a tab header writes to the clipboard. The code detaches the
  listener only from the header that is active at the moment it runs, and it runs only
  on node changes. In \<open>world_stale_trigger\<close> the listener attached to \<open>A\<close> at load time
  stays on \<open>A\<close> while \<open>B\<close> is active and the toggle is switched off; when the classes
  make \<open>A\<close> the active header again, the setting is off, the active header carries the
  listener, and a double-click on it copies \<open>[[A]]\<close>.
\<close>

theorem C6_listener_left_on_active_header:
  "reachable Part_000 world_stale_trigger \<and>
   \<not> enableDoubleClick world_stale_trigger \<and>
   query_activeTab (page world_stale_trigger) = Some (header_A True) \<and>
   listeners world_stale_trigger = [1] \<and>
   writeText_calls world_stale_trigger = [] \<and>
   writeText_calls (step Part_000 (DblClick 1 True) world_stale_trigger) = [ascii ''[[A]]'']"
proof -
  have "reachable Part_000 world_stale_trigger"
    unfolding reachable_def world_stale_trigger_def by blast
  moreover have
    "\<not> enableDoubleClick world_stale_trigger \<and>
     query_activeTab (page world_stale_trigger) = Some (header_A True) \<and>
     listeners world_stale_trigger = [1] \<and>
     writeText_calls world_stale_trigger = [] \<and>
     writeText_calls (step Part_000 (DblClick 1 True) world_stale_trigger) = [ascii ''[[A]]'']"
    by (simp add: world_stale_trigger_eval plugin_defs copyLink_def query_activeTab_def
        query_innerTitle_def fixture_defs effect_defs link_defs Let_def ascii_def)
  ultimately show ?thesis by blast
qed

subsection \<open>At most one trigger\<close>

text \<open>
  C7. In every reachable world, an element carries at most one registration of the
  double-click listener, so the current active tab header carries at most one.
  \<open>addDoubleClickListener\<close> detaches from the active header before it attaches to it
  (so the host always finds the listener absent and appends it), leaves exactly one
  registration there, and a second call on the unchanged page gives the same world
  again. \<open>removeDoubleClickListener\<close> changes nothing when the active
  header carries no listener.
\<close>

theorem C7_at_most_one_trigger:
  assumes "reachable v w"
    and "query_activeTab (page w) = Some a"
  shows "count_list (listeners w) e \<le> 1 \<and>
         listeners (addDoubleClickListener w) =
           addEventListener (elem_id a) (removeEventListener (elem_id a) (listeners w)) \<and>
         listeners (addDoubleClickListener w) = remove1 (elem_id a) (listeners w) @ [elem_id a] \<and>
         count_list (listeners (addDoubleClickListener w)) (elem_id a) = 1 \<and>
         addDoubleClickListener (addDoubleClickListener w) = addDoubleClickListener w \<and>
         (elem_id a \<notin> set (listeners w) \<longrightarrow> removeDoubleClickListener w = w)"
proof -
  from reachable_distinct [OF assms(1)] have d: "distinct (listeners w)" .
  then have c: "count_list (listeners w) e \<le> 1"
    by (simp add: distinct_count_list)
  have o: "listeners (addDoubleClickListener w) =
           addEventListener (elem_id a) (removeEventListener (elem_id a) (listeners w))"
    using assms(2) by (simp add: addDoubleClickListener_def removeDoubleClickListener_def Let_def)
  from d have o': "listeners (addDoubleClickListener w) =
           remove1 (elem_id a) (listeners w) @ [elem_id a]"
    by (simp add: o addEventListener_def removeEventListener_def)
  from add_distinct [OF d] add_attaches [OF assms(2)]
  have n: "count_list (listeners (addDoubleClickListener w)) (elem_id a) = 1"
    by (simp add: distinct_count_list)
  have r: "elem_id a \<notin> set (listeners w) \<longrightarrow> removeDoubleClickListener w = w"
    using assms(2)
    by (simp add: removeDoubleClickListener_def removeEventListener_def remove1_idem)
  from c o o' n add_twice [OF d] r show ?thesis by simp
qed

theorem C7_at_most_one_trigger_witness:
  "listeners world_loaded = [1] \<and>
   count_list (listeners world_loaded) 1 \<le> 1 \<and>
   count_list (listeners (addDoubleClickListener world_loaded)) 1 = 1 \<and>
   addDoubleClickListener (addDoubleClickListener world_loaded) =
     addDoubleClickListener world_loaded"
proof -
  have r: "reachable Part_000 world_loaded"
    unfolding reachable_def world_loaded_def by blast
  have a: "query_activeTab (page world_loaded) = Some (header_A True)"
    by (simp add: world_loaded_eval query_activeTab_def fixture_defs)
  have i: "elem_id (header_A True) = 1" by (simp add: header_A_def)
  have l: "listeners world_loaded = [1]" by (simp add: world_loaded_eval)
  from C7_at_most_one_trigger [OF r a, of 1] i l show ?thesis
    by (simp add: addEventListener_def removeEventListener_def)
qed

subsection \<open>The toggle\<close>




end
